theory Spec2Isabelle
  imports Main
begin

section \<open>Values of the program\<close>

text \<open>
  The program works on whatever \<open>json.load\<close> hands it: \<open>None\<close>, booleans, unbounded
  integers, floats, strings, lists and dictionaries with string keys. A dictionary is an
  association list in insertion order; \<open>json.load\<close> yields no duplicate keys.

  A Python string is represented by its UTF-8 bytes: equality and concatenation, the only
  operations the program applies to strings, agree with those on code points. A lone
  surrogate, which a JSON escape such as \<open>\ud800\<close> produces, is represented by the three
  bytes of its generalised encoding (ED A0 80 for U+D800).

  Floats are a type parameter \<open>'f\<close>. Their arithmetic, comparison and formatting are the
  interpreter's and are passed to every function as a record of operations, so nothing
  is assumed about rounding. The conversion of an integer to a float is partial: CPython
  raises OverflowError for an integer beyond the float range. The record also says which
  operations on the process's surroundings raise: a sequence repetition that is too
  large, a \<open>print\<close>, the opening of the results file and a write to it.
\<close>

datatype 'f json =
    JNull
  | JBool bool
  | JInt int
  | JFloat 'f
  | JStr string
  | JList "'f json list"
  | JObj "(string \<times> 'f json) list"

datatype py_exception =
    KeyError string
  | TypeError
  | AttributeError
  | OverflowError
  | MemoryError
  | FileNotFoundError
  | JSONDecodeError
  | OSError string
  | UnicodeDecodeError
  | UnicodeEncodeError

record 'f host =
  f_zero :: "'f"
  f_of_int :: "int \<Rightarrow> 'f option"
  f_add :: "'f \<Rightarrow> 'f \<Rightarrow> 'f"
  f_sub :: "'f \<Rightarrow> 'f \<Rightarrow> 'f"
  f_mul :: "'f \<Rightarrow> 'f \<Rightarrow> 'f"
  f_lt_int :: "'f \<Rightarrow> int \<Rightarrow> bool"
  f_eq_int :: "'f \<Rightarrow> int \<Rightarrow> bool"
  f_eq :: "'f \<Rightarrow> 'f \<Rightarrow> bool"
  f_fixed :: "nat \<Rightarrow> 'f \<Rightarrow> string"
  repr :: "'f json \<Rightarrow> string"
  repeat_raises :: "'f json \<Rightarrow> int \<Rightarrow> py_exception option"
  print_raises :: "string \<Rightarrow> py_exception option"
  open_raises :: "py_exception option"
  write_raises :: "string \<Rightarrow> py_exception option"

text \<open>\<open>f_zero\<close> is the literal \<open>0.0\<close>; \<open>f_of_int\<close> is \<open>float(n)\<close>, with \<open>None\<close> where
  CPython raises OverflowError; \<open>f_lt_int x n\<close> and \<open>f_eq_int x n\<close> are \<open>x < n\<close> and
  \<open>x == n\<close> for a float and an integer; \<open>f_fixed n x\<close> is \<open>format(x, '.nf')\<close>.\<close>

text \<open>\<open>str(v)\<close>, as an f-string field \<open>{v}\<close> formats it: a string is itself, every other
  value of these types prints as its \<open>repr\<close>.\<close>

fun py_str :: "'f host \<Rightarrow> 'f json \<Rightarrow> string" where
  "py_str h (JStr s) = s"
| "py_str h v = repr h v"

subsection \<open>Numbers\<close>

text \<open>\<open>bool\<close> is a subclass of \<open>int\<close>: \<open>True\<close> and \<open>False\<close> take part in arithmetic,
  comparison and \<open>isinstance(_, (int, float))\<close> as 1 and 0.\<close>

datatype 'f number = PInt int | PFloat 'f

fun as_number :: "'f json \<Rightarrow> 'f number option" where
  "as_number (JBool b) = Some (PInt (if b then 1 else 0))"
| "as_number (JInt i) = Some (PInt i)"
| "as_number (JFloat x) = Some (PFloat x)"
| "as_number _ = None"

fun number_json :: "'f number \<Rightarrow> 'f json" where
  "number_json (PInt i) = JInt i"
| "number_json (PFloat x) = JFloat x"

text \<open>An integer operand of a float operation is converted first, which raises
  OverflowError when it is beyond the float range.\<close>

definition to_float :: "'f host \<Rightarrow> int \<Rightarrow> py_exception + 'f" where
  "to_float h i = (case f_of_int h i of None \<Rightarrow> Inl OverflowError | Some x \<Rightarrow> Inr x)"

text \<open>The product of two numbers: exact on integers, the float product otherwise.\<close>

fun num_mul :: "'f host \<Rightarrow> 'f number \<Rightarrow> 'f number \<Rightarrow> py_exception + 'f number" where
  "num_mul h (PInt a) (PInt b) = Inr (PInt (a * b))"
| "num_mul h (PInt a) (PFloat y) =
     (case to_float h a of Inl e \<Rightarrow> Inl e | Inr x \<Rightarrow> Inr (PFloat (f_mul h x y)))"
| "num_mul h (PFloat x) (PInt b) =
     (case to_float h b of Inl e \<Rightarrow> Inl e | Inr y \<Rightarrow> Inr (PFloat (f_mul h x y)))"
| "num_mul h (PFloat x) (PFloat y) = Inr (PFloat (f_mul h x y))"

fun num_eq :: "'f host \<Rightarrow> 'f number \<Rightarrow> 'f number \<Rightarrow> bool" where
  "num_eq h (PInt a) (PInt b) = (a = b)"
| "num_eq h (PInt a) (PFloat y) = f_eq_int h y a"
| "num_eq h (PFloat x) (PInt b) = f_eq_int h x b"
| "num_eq h (PFloat x) (PFloat y) = f_eq h x y"

text \<open>\<open>n < 0\<close> for a number.\<close>

fun num_lt0 :: "'f host \<Rightarrow> 'f number \<Rightarrow> bool" where
  "num_lt0 h (PInt a) = (a < 0)"
| "num_lt0 h (PFloat x) = f_lt_int h x 0"

text \<open>\<open>t + n\<close> for a float \<open>t\<close>: the result is a float.\<close>

fun float_plus :: "'f host \<Rightarrow> 'f \<Rightarrow> 'f number \<Rightarrow> py_exception + 'f" where
  "float_plus h t (PInt a) =
     (case to_float h a of Inl e \<Rightarrow> Inl e | Inr x \<Rightarrow> Inr (f_add h t x))"
| "float_plus h t (PFloat x) = Inr (f_add h t x)"

text \<open>\<open>s * n\<close> for a sequence \<open>s\<close> and an integer \<open>n\<close> repeats the sequence, unless the
  count or the result is too large for the interpreter.\<close>

fun seq_repeat :: "'f host \<Rightarrow> 'f json \<Rightarrow> int \<Rightarrow> py_exception + 'f json" where
  "seq_repeat h (JStr s) n =
     (case repeat_raises h (JStr s) n of
        Some e \<Rightarrow> Inl e
      | None \<Rightarrow> Inr (JStr (concat (replicate (nat n) s))))"
| "seq_repeat h (JList xs) n =
     (case repeat_raises h (JList xs) n of
        Some e \<Rightarrow> Inl e
      | None \<Rightarrow> Inr (JList (concat (replicate (nat n) xs))))"
| "seq_repeat h _ n = Inl TypeError"

text \<open>\<open>a * b\<close>.\<close>

definition py_mul :: "'f host \<Rightarrow> 'f json \<Rightarrow> 'f json \<Rightarrow> py_exception + 'f json" where
  "py_mul h a b =
     (case (as_number a, as_number b) of
        (Some x, Some y) \<Rightarrow>
          (case num_mul h x y of Inl e \<Rightarrow> Inl e | Inr n \<Rightarrow> Inr (number_json n))
      | (None, Some (PInt n)) \<Rightarrow> seq_repeat h a n
      | (Some (PInt n), None) \<Rightarrow> seq_repeat h b n
      | _ \<Rightarrow> Inl TypeError)"

text \<open>\<open>total_cost += v\<close> for a float \<open>total_cost\<close>: a number is added, anything else
  raises TypeError.\<close>

definition float_iadd :: "'f host \<Rightarrow> 'f \<Rightarrow> 'f json \<Rightarrow> py_exception + 'f" where
  "float_iadd h t v =
     (case as_number v of
        Some n \<Rightarrow> float_plus h t n
      | None \<Rightarrow> Inl TypeError)"

subsection \<open>Subscripts and dictionaries\<close>

text \<open>\<open>item[k]\<close> for a string \<open>k\<close>: a dictionary without the key raises KeyError; a
  list, string, number or \<open>None\<close> raises TypeError.\<close>

fun py_getitem :: "'f json \<Rightarrow> string \<Rightarrow> py_exception + 'f json" where
  "py_getitem (JObj kvs) k =
     (case map_of kvs k of None \<Rightarrow> Inl (KeyError k) | Some v \<Rightarrow> Inr v)"
| "py_getitem _ k = Inl TypeError"

text \<open>\<open>sale.get(k)\<close>: \<open>None\<close> for a missing key; only dictionaries have the method.\<close>

fun py_get :: "'f json \<Rightarrow> string \<Rightarrow> py_exception + 'f json" where
  "py_get (JObj kvs) k = Inr (case map_of kvs k of None \<Rightarrow> JNull | Some v \<Rightarrow> v)"
| "py_get _ k = Inl AttributeError"

text \<open>The dictionary \<open>price_dict\<close> has keys of any hashable type. Keys are compared as
  Python compares them: numbers by value across \<open>bool\<close>, \<open>int\<close> and \<open>float\<close>, strings
  and \<open>None\<close> with themselves. Lists and dictionaries are unhashable.\<close>

type_synonym 'f py_dict = "('f json \<times> 'f json) list"

fun hashable :: "'f json \<Rightarrow> bool" where
  "hashable (JList _) = False"
| "hashable (JObj _) = False"
| "hashable _ = True"

definition key_eq :: "'f host \<Rightarrow> 'f json \<Rightarrow> 'f json \<Rightarrow> bool" where
  "key_eq h a b =
     (case (as_number a, as_number b) of
        (Some x, Some y) \<Rightarrow> num_eq h x y
      | (None, None) \<Rightarrow> a = b
      | _ \<Rightarrow> False)"

fun dict_find :: "'f host \<Rightarrow> 'f py_dict \<Rightarrow> 'f json \<Rightarrow> 'f json option" where
  "dict_find h [] k = None"
| "dict_find h ((k', v) # d) k = (if key_eq h k' k then Some v else dict_find h d k)"

fun dict_store :: "'f host \<Rightarrow> 'f py_dict \<Rightarrow> 'f json \<Rightarrow> 'f json \<Rightarrow> 'f py_dict" where
  "dict_store h [] k v = [(k, v)]"
| "dict_store h ((k', v') # d) k v =
     (if key_eq h k' k then (k', v) # d else (k', v') # dict_store h d k v)"

text \<open>\<open>d[k] = v\<close>, \<open>k in d\<close> and \<open>d[k]\<close>.\<close>

definition dict_setitem ::
  "'f host \<Rightarrow> 'f py_dict \<Rightarrow> 'f json \<Rightarrow> 'f json \<Rightarrow> py_exception + 'f py_dict" where
  "dict_setitem h d k v = (if hashable k then Inr (dict_store h d k v) else Inl TypeError)"

definition dict_contains :: "'f host \<Rightarrow> 'f py_dict \<Rightarrow> 'f json \<Rightarrow> py_exception + bool" where
  "dict_contains h d k = (if hashable k then Inr (dict_find h d k \<noteq> None) else Inl TypeError)"

definition dict_getitem :: "'f host \<Rightarrow> 'f py_dict \<Rightarrow> 'f json \<Rightarrow> py_exception + 'f json" where
  "dict_getitem h d k =
     (if hashable k
      then (case dict_find h d k of None \<Rightarrow> Inl (KeyError (repr h k)) | Some v \<Rightarrow> Inr v)
      else Inl TypeError)"

section \<open>The aggregator: \<open>compute_total_sales\<close>\<close>

abbreviation a_acute :: string where
  "a_acute \<equiv> [CHR 0xC3, CHR 0xA1]"

abbreviation o_acute :: string where
  "o_acute \<equiv> [CHR 0xC3, CHR 0xB3]"

abbreviation newline :: string where
  "newline \<equiv> [CHR 0x0A]"

text \<open>The dictionary comprehension
  \<open>{item["title"]: item["price"] for item in price_catalogue}\<close>: for each item in order
  the key is evaluated, then the value, then the pair is stored. The first exception
  ends the comprehension.\<close>

fun build_price_dict ::
  "'f host \<Rightarrow> 'f json list \<Rightarrow> 'f py_dict \<Rightarrow> py_exception + 'f py_dict" where
  "build_price_dict h [] d = Inr d"
| "build_price_dict h (item # items) d =
     (case py_getitem item ''title'' of
        Inl e \<Rightarrow> Inl e
      | Inr title \<Rightarrow>
     (case py_getitem item ''price'' of
        Inl e \<Rightarrow> Inl e
      | Inr price \<Rightarrow>
     (case dict_setitem h d title price of
        Inl e \<Rightarrow> Inl e
      | Inr d' \<Rightarrow> build_price_dict h items d')))"

text \<open>\<open>not isinstance(quantity, (int, float)) or quantity < 0\<close>.\<close>

definition invalid_quantity :: "'f host \<Rightarrow> 'f json \<Rightarrow> bool" where
  "invalid_quantity h quantity =
     (case as_number quantity of None \<Rightarrow> True | Some n \<Rightarrow> num_lt0 h n)"

text \<open>The body of the loop over \<open>sales_record\<close>, on the pair of \<open>total_cost\<close> and
  \<open>errors\<close>. Each \<open>continue\<close> returns the pair for the next iteration.\<close>

definition process_sale ::
  "'f host \<Rightarrow> 'f py_dict \<Rightarrow> 'f json \<Rightarrow> 'f \<times> string list
     \<Rightarrow> py_exception + ('f \<times> string list)" where
  "process_sale h price_dict sale st =
     (case st of (total_cost, errors) \<Rightarrow>
     (case py_get sale ''Product'' of
        Inl e \<Rightarrow> Inl e
      | Inr product \<Rightarrow>
     (case py_get sale ''Quantity'' of
        Inl e \<Rightarrow> Inl e
      | Inr quantity \<Rightarrow>
     if product = JNull \<or> quantity = JNull
     then Inr (total_cost,
               errors @ [''Registro inv'' @ a_acute @ ''lido en ventas: '' @ py_str h sale])
     else
     (case dict_contains h price_dict product of
        Inl e \<Rightarrow> Inl e
      | Inr found \<Rightarrow>
     if \<not> found
     then Inr (total_cost,
               errors @ [py_str h product @ '' no encontrado en el cat'' @ a_acute @ ''logo''])
     else if invalid_quantity h quantity
     then Inr (total_cost,
               errors @ [''Cantidad '' @ py_str h quantity @ '' inv'' @ a_acute @ ''lido para ''
                           @ py_str h product])
     else
     (case dict_getitem h price_dict product of
        Inl e \<Rightarrow> Inl e
      | Inr price \<Rightarrow>
     (case py_mul h price quantity of
        Inl e \<Rightarrow> Inl e
      | Inr amount \<Rightarrow>
     (case float_iadd h total_cost amount of
        Inl e \<Rightarrow> Inl e
      | Inr total_cost' \<Rightarrow> Inr (total_cost', errors))))))))"

fun sales_loop ::
  "'f host \<Rightarrow> 'f py_dict \<Rightarrow> 'f json list \<Rightarrow> 'f \<times> string list
     \<Rightarrow> py_exception + ('f \<times> string list)" where
  "sales_loop h price_dict [] st = Inr st"
| "sales_loop h price_dict (sale # rest) st =
     (case process_sale h price_dict sale st of
        Inl e \<Rightarrow> Inl e
      | Inr st' \<Rightarrow> sales_loop h price_dict rest st')"

definition compute_total_sales ::
  "'f host \<Rightarrow> 'f json list \<Rightarrow> 'f json list \<Rightarrow> py_exception + ('f \<times> string list)" where
  "compute_total_sales h price_catalogue sales_record =
     (case build_price_dict h price_catalogue [] of
        Inl e \<Rightarrow> Inl e
      | Inr price_dict \<Rightarrow> sales_loop h price_dict sales_record (f_zero h, []))"

section \<open>The loaders\<close>

text \<open>\<open>print(s)\<close> appends \<open>s\<close> and a newline to standard output, or raises and appends
  nothing: the text is encoded before any of it is written, and a string with a lone
  surrogate cannot be encoded.\<close>

definition py_print :: "'f host \<Rightarrow> string \<Rightarrow> string \<Rightarrow> py_exception + string" where
  "py_print h out s =
     (case print_raises h s of Some e \<Rightarrow> Inl e | None \<Rightarrow> Inr (out @ s @ newline))"

text \<open>What opening a path and running \<open>json.load\<close> on it does is the environment's:
  it raises an exception or yields the parsed document. \<open>load_json_file\<close> has three
  handlers, for FileNotFoundError, json.JSONDecodeError and OSError (of which
  FileNotFoundError is a subclass and IOError an alias); any other exception leaves the
  function. Each handler, and the test for a list, prints a line, after which the
  function returns \<open>None\<close>. The result is the text printed and the value returned, or
  the exception.\<close>

type_synonym 'f file_reader = "string \<Rightarrow> py_exception + 'f json"

definition print_and_return_none ::
  "'f host \<Rightarrow> string \<Rightarrow> string \<Rightarrow> string \<times> (py_exception + 'a option)" where
  "print_and_return_none h out s =
     (case py_print h out s of Inl e \<Rightarrow> (out, Inl e) | Inr out' \<Rightarrow> (out', Inr None))"

definition load_json_file ::
  "'f host \<Rightarrow> 'f file_reader \<Rightarrow> string \<Rightarrow> string
     \<Rightarrow> string \<times> (py_exception + 'f json list option)" where
  "load_json_file h read_json file_path out =
     (case read_json file_path of
        Inr (JList data) \<Rightarrow> (out, Inr (Some data))
      | Inr _ \<Rightarrow>
          print_and_return_none h out
            (''Error: El archivo '' @ file_path @ '' no es un JSON v'' @ a_acute @ ''lida.'')
      | Inl FileNotFoundError \<Rightarrow>
          print_and_return_none h out
            (''Error: El archivo '' @ file_path @ '' no se encontr'' @ o_acute @ ''.'')
      | Inl JSONDecodeError \<Rightarrow>
          print_and_return_none h out
            (''Error: El archivo '' @ file_path @ '' tiene un formato JSON inv'' @ a_acute
               @ ''lido.'')
      | Inl (OSError file_error) \<Rightarrow>
          print_and_return_none h out
            (''Error inesperado al leer '' @ file_path @ '': '' @ file_error)
      | Inl e \<Rightarrow> (out, Inl e))"

text \<open>The dictionary that \<open>load_csv_file\<close> appends for a row of two fields whose second
  field parses as an integer.\<close>

definition csv_sale_record :: "string \<Rightarrow> int \<Rightarrow> 'f json" where
  "csv_sale_record product quantity =
     JObj [(''product'', JStr product), (''quantity'', JInt quantity)]"

section \<open>The report and \<open>main\<close>\<close>

text \<open>The f-string \<open>f" - {error}"\<close> and the heading of the errors.\<close>

definition error_line :: "string \<Rightarrow> string" where
  "error_line error = '' - '' @ error"

definition errors_heading :: string where
  "errors_heading = ''Errores encontrados:''"

text \<open>The loop \<open>for error in errors: print(f" - {error}")\<close>, up to the first print
  that raises: the text printed and the exception, if any.\<close>

fun print_errors ::
  "'f host \<Rightarrow> string list \<Rightarrow> string \<Rightarrow> string \<times> py_exception option" where
  "print_errors h [] out = (out, None)"
| "print_errors h (error # errors) out =
     (case py_print h out (error_line error) of
        Inl e \<Rightarrow> (out, Some e)
      | Inr out' \<Rightarrow> print_errors h errors out')"

text \<open>\<open>result_file.write(s)\<close> appends \<open>s\<close> to the file, or raises.\<close>

definition py_write :: "'f host \<Rightarrow> string \<Rightarrow> string \<Rightarrow> py_exception + string" where
  "py_write h content s =
     (case write_raises h s of Some e \<Rightarrow> Inl e | None \<Rightarrow> Inr (content @ s))"

fun write_errors ::
  "'f host \<Rightarrow> string list \<Rightarrow> string \<Rightarrow> string \<times> py_exception option" where
  "write_errors h [] content = (content, None)"
| "write_errors h (error # errors) content =
     (case py_write h content (error_line error @ newline) of
        Inl e \<Rightarrow> (content, Some e)
      | Inr content' \<Rightarrow> write_errors h errors content')"

text \<open>The end of \<open>main\<close>, lines 111 to 125: the message is printed, then the errors if
  there are any; then the results file is opened and the same message and errors are
  written to it. None of this is inside a \<open>try\<close>: the first exception ends the run.
  The result is standard output, the content of the results file if it was opened (what
  was written before an exception stays in it) and the exception, if any.\<close>

definition report ::
  "'f host \<Rightarrow> 'f \<Rightarrow> 'f \<Rightarrow> string list \<Rightarrow> string
     \<Rightarrow> string \<times> string option \<times> py_exception option" where
  "report h total_cost execution_time errors out =
     (let result_message =
            ''Total de ventas: $'' @ f_fixed h 2 total_cost @ newline
            @ ''Tiempo de ejecuci'' @ o_acute @ ''n: '' @ f_fixed h 4 execution_time
            @ '' segundos'' @ newline
      in
     (case py_print h out result_message of
        Inl e \<Rightarrow> (out, None, Some e)
      | Inr out1 \<Rightarrow>
     (case (if errors \<noteq> []
            then (case py_print h out1 errors_heading of
                    Inl e \<Rightarrow> (out1, Some e)
                  | Inr out2 \<Rightarrow> print_errors h errors out2)
            else (out1, None)) of
        (out3, Some e) \<Rightarrow> (out3, None, Some e)
      | (out3, None) \<Rightarrow>
     (case open_raises h of
        Some e \<Rightarrow> (out3, None, Some e)
      | None \<Rightarrow>
     (case py_write h [] result_message of
        Inl e \<Rightarrow> (out3, Some [], Some e)
      | Inr file1 \<Rightarrow>
     (case (if errors \<noteq> []
            then (case py_write h file1 (errors_heading @ newline) of
                    Inl e \<Rightarrow> (file1, Some e)
                  | Inr file2 \<Rightarrow> write_errors h errors file2)
            else (file1, None)) of
        (file3, failure) \<Rightarrow> (out3, Some file3, failure)))))))"

text \<open>A run of the program: what it printed, what it wrote to \<open>SalesTC1Results.txt\<close> if
  it opened it, the exception that left \<open>main\<close> if one did, and the exit status
  (1 after \<open>sys.exit(1)\<close> and after an uncaught exception).\<close>

record run =
  stdout :: string
  results_file :: "string option"
  uncaught :: "py_exception option"
  exit_code :: int

definition crashed :: "string \<Rightarrow> py_exception \<Rightarrow> run" where
  "crashed out e = \<lparr>stdout = out, results_file = None, uncaught = Some e, exit_code = 1\<rparr>"

definition exited :: "string \<Rightarrow> run" where
  "exited out = \<lparr>stdout = out, results_file = None, uncaught = None, exit_code = 1\<rparr>"

text \<open>\<open>print(s); sys.exit(1)\<close>.\<close>

definition print_and_exit :: "'f host \<Rightarrow> string \<Rightarrow> string \<Rightarrow> run" where
  "print_and_exit h out s =
     (case py_print h out s of Inl e \<Rightarrow> crashed out e | Inr out' \<Rightarrow> exited out')"

text \<open>\<open>argv\<close> is \<open>sys.argv\<close>; the two readings of \<open>time.time()\<close> are parameters.
  The test \<open>price_catalogue is None or not sales_record\<close> lets the run go on only for a
  loaded catalogue and a loaded sales list that is not empty: \<open>not sales_record\<close> holds
  for \<open>None\<close> and for \<open>[]\<close>.\<close>

definition main ::
  "'f host \<Rightarrow> string list \<Rightarrow> 'f file_reader \<Rightarrow> 'f \<Rightarrow> 'f \<Rightarrow> run" where
  "main h argv read_json start_time end_time =
     (if length argv \<noteq> 3
      then print_and_exit h [] ''Usa: python compute_sales.py precios.json ventas.csv''
      else
     (let price_catalogue_file = argv ! 1;
          sales_record_file = argv ! 2
      in
     (case load_json_file h read_json price_catalogue_file [] of
        (out1, Inl e) \<Rightarrow> crashed out1 e
      | (out1, Inr price_catalogue) \<Rightarrow>
     (case load_json_file h read_json sales_record_file out1 of
        (out2, Inl e) \<Rightarrow> crashed out2 e
      | (out2, Inr sales_record) \<Rightarrow>
     (case (price_catalogue, sales_record) of
        (Some catalogue, Some (sale # sales)) \<Rightarrow>
          (case compute_total_sales h catalogue (sale # sales) of
             Inl e \<Rightarrow> crashed out2 e
           | Inr (total_cost, errors) \<Rightarrow>
               (let execution_time = f_sub h end_time start_time
                in case report h total_cost execution_time errors out2 of
                     (out3, file, None) \<Rightarrow>
                       \<lparr>stdout = out3, results_file = file, uncaught = None,
                        exit_code = 0\<rparr>
                   | (out3, file, Some e) \<Rightarrow>
                       \<lparr>stdout = out3, results_file = file, uncaught = Some e,
                        exit_code = 1\<rparr>))
      | _ \<Rightarrow>
          print_and_exit h out2
            ''Error: No se pudieron cargar los archivos correctamente.'')))))"

section \<open>The specification's reading of the data\<close>

text \<open>A catalogue entry of the data model: a dictionary with a string under \<open>title\<close>
  and a number under \<open>price\<close>.\<close>

definition catalogue_entry :: "'f json \<Rightarrow> (string \<times> 'f json) option" where
  "catalogue_entry item =
     (case item of
        JObj kvs \<Rightarrow>
          (case (map_of kvs ''title'', map_of kvs ''price'') of
             (Some (JStr t), Some p) \<Rightarrow> (if as_number p = None then None else Some (t, p))
           | _ \<Rightarrow> None)
      | _ \<Rightarrow> None)"

definition well_formed_catalogue :: "'f json list \<Rightarrow> bool" where
  "well_formed_catalogue catalogue = (\<forall>item \<in> set catalogue. catalogue_entry item \<noteq> None)"

text \<open>The price mapping of the specification: the price of the last entry with the
  title, if there is one.\<close>

fun price_of :: "'f json list \<Rightarrow> string \<Rightarrow> 'f json option" where
  "price_of [] t = None"
| "price_of (item # items) t =
     (case price_of items t of
        Some p \<Rightarrow> Some p
      | None \<Rightarrow>
          (case catalogue_entry item of
             Some (t', p) \<Rightarrow> (if t' = t then Some p else None)
           | None \<Rightarrow> None))"

definition price_mapping :: "'f json list \<Rightarrow> 'f json \<Rightarrow> 'f json option" where
  "price_mapping catalogue product =
     (case product of JStr t \<Rightarrow> price_of catalogue t | _ \<Rightarrow> None)"




text \<open>The total after price times quantity is added to it, in Python's arithmetic and
  with the interpreter's float operations: the product of two integers is exact and is
  converted to a float as a whole; an integer factor of a float is converted before the
  multiplication. There is no result where a conversion is beyond the float range (the
  code raises OverflowError) and none for operands that are not numbers.\<close>

definition add_amount :: "'f host \<Rightarrow> 'f \<Rightarrow> 'f json \<Rightarrow> 'f json \<Rightarrow> 'f option" where
  "add_amount h t price quantity =
     (case (as_number price, as_number quantity) of
        (Some (PInt a), Some (PInt b)) \<Rightarrow>
          map_option (\<lambda>x. f_add h t x) (f_of_int h (a * b))
      | (Some (PInt a), Some (PFloat y)) \<Rightarrow>
          map_option (\<lambda>x. f_add h t (f_mul h x y)) (f_of_int h a)
      | (Some (PFloat x), Some (PInt b)) \<Rightarrow>
          map_option (\<lambda>y. f_add h t (f_mul h x y)) (f_of_int h b)
      | (Some (PFloat x), Some (PFloat y)) \<Rightarrow> Some (f_add h t (f_mul h x y))
      | _ \<Rightarrow> None)"





text \<open>Two properties of the dictionary built from a well-formed catalogue: its keys
  are strings and its values are numbers.\<close>

definition string_keys :: "'f py_dict \<Rightarrow> bool" where
  "string_keys d = (\<forall>k \<in> fst ` set d. \<exists>t. k = JStr t)"

definition numeric_values :: "'f py_dict \<Rightarrow> bool" where
  "numeric_values d = (\<forall>v \<in> snd ` set d. as_number v \<noteq> None)"








section \<open>An interpreter for evaluation\<close>

text \<open>To run the model on concrete inputs, floats are restricted to whole numbers:
  the arithmetic is that of the integers, \<open>format(x, '.nf')\<close> prints the integer part and
  \<open>n\<close> zeros, and \<open>repr\<close> prints \<open>.0\<close> after the integer part. The conversion of an
  integer fails from \<open>2 ^ 1024\<close> on, as in CPython; it keeps the integer below, which is
  what a float does up to \<open>2 ^ 53\<close>. Strings are printed between single quotes, which is
  their \<open>repr\<close> when they consist of printable ASCII without quote or backslash. A
  repetition fails when the count does not fit a machine word. Standard output and the
  results file are encoded in UTF-8, so that printing or writing a text with a lone
  surrogate raises UnicodeEncodeError; the results file can be opened.\<close>

fun nat_digits :: "nat \<Rightarrow> string" where
  "nat_digits n =
     (if n < 10 then [''0123456789'' ! n]
      else nat_digits (n div 10) @ [''0123456789'' ! (n mod 10)])"

declare nat_digits.simps [simp del]

definition int_digits :: "int \<Rightarrow> string" where
  "int_digits i = (if i < 0 then ''-'' @ nat_digits (nat (- i)) else nat_digits (nat i))"

fun join :: "string \<Rightarrow> string list \<Rightarrow> string" where
  "join sep [] = []"
| "join sep [s] = s"
| "join sep (s # t # ts) = s @ sep @ join sep (t # ts)"

abbreviation quote :: string where
  "quote \<equiv> [CHR 0x27]"

fun whole_repr :: "int json \<Rightarrow> string" where
  "whole_repr JNull = ''None''"
| "whole_repr (JBool b) = (if b then ''True'' else ''False'')"
| "whole_repr (JInt i) = int_digits i"
| "whole_repr (JFloat x) = int_digits x @ ''.0''"
| "whole_repr (JStr s) = quote @ s @ quote"
| "whole_repr (JList xs) = ''['' @ join '', '' (map whole_repr xs) @ '']''"
| "whole_repr (JObj kvs) =
     ''{'' @ join '', '' (map (\<lambda>(k, v). quote @ k @ quote @ '': '' @ whole_repr v) kvs) @ ''}''"

text \<open>In UTF-8 the byte ED is followed by a byte below A0, except in the generalised
  encoding of a surrogate.\<close>

fun has_surrogate :: "string \<Rightarrow> bool" where
  "has_surrogate (a # b # s) =
     ((a = CHR 0xED \<and> (160 :: nat) \<le> of_char b) \<or> has_surrogate (b # s))"
| "has_surrogate _ = False"

definition encode_raises :: "string \<Rightarrow> py_exception option" where
  "encode_raises s = (if has_surrogate s then Some UnicodeEncodeError else None)"

definition whole_host :: "int host" where
  "whole_host =
     \<lparr>f_zero = 0,
      f_of_int = (\<lambda>i. if \<bar>i\<bar> < 2 ^ 1024 then Some i else None),
      f_add = (+),
      f_sub = (-),
      f_mul = (*),
      f_lt_int = (<),
      f_eq_int = (=),
      f_eq = (=),
      f_fixed = (\<lambda>n x. int_digits x @ ''.'' @ replicate n (CHR ''0'')),
      repr = whole_repr,
      repeat_raises = (\<lambda>s n. if n < 2 ^ 63 then None else Some OverflowError),
      print_raises = encode_raises,
      open_raises = None,
      write_raises = encode_raises\<rparr>"

text \<open>The catalogue and the sale records of the specification's scenarios.\<close>

definition apple_catalogue :: "int json list" where
  "apple_catalogue = [JObj [(''title'', JStr ''Apple''), (''price'', JFloat 2)]]"


definition sale_of :: "string \<Rightarrow> 'f json \<Rightarrow> 'f json" where
  "sale_of product quantity = JObj [(''Product'', JStr product), (''Quantity'', quantity)]"


definition undecodable_reader :: "int file_reader" where
  "undecodable_reader path = Inl UnicodeDecodeError"

definition command_line :: "string list" where
  "command_line = [''compute_sales.py'', ''catalogue.json'', ''sales.json'']"

section \<open>Dictionaries with string keys\<close>

lemma key_eq_JStr: "key_eq h (JStr t) k = (k = JStr t)"
  by (cases k) (auto simp: key_eq_def)

lemma dict_find_map_of: "string_keys d \<Longrightarrow> dict_find h d k = map_of d k"
  by (induction d) (auto simp: string_keys_def key_eq_JStr)

lemma dict_store_map_of:
  "string_keys d \<Longrightarrow> map_of (dict_store h d (JStr t) v) = (map_of d)(JStr t \<mapsto> v)"
  by (induction d) (auto simp: string_keys_def key_eq_JStr)

lemma dict_store_keys:
  "string_keys d \<Longrightarrow> string_keys (dict_store h d (JStr t) v)"
  by (induction d) (fastforce simp: string_keys_def key_eq_JStr split: if_splits)+

lemma dict_store_values:
  "numeric_values d \<Longrightarrow> as_number v \<noteq> None \<Longrightarrow> numeric_values (dict_store h d k v)"
  by (induction d) (fastforce simp: numeric_values_def split: if_splits)+

lemma catalogue_entry_SomeD:
  "catalogue_entry item = Some (t, p) \<Longrightarrow>
     \<exists>kvs. item = JObj kvs \<and> map_of kvs ''title'' = Some (JStr t) \<and> map_of kvs ''price'' = Some p
       \<and> as_number p \<noteq> None"
  by (auto simp: catalogue_entry_def split: json.splits option.splits if_splits)

lemma build_price_dict_well_formed:
  "well_formed_catalogue catalogue \<Longrightarrow> string_keys d \<Longrightarrow> numeric_values d \<Longrightarrow>
     \<exists>d'. build_price_dict h catalogue d = Inr d' \<and> string_keys d' \<and> numeric_values d'
       \<and> map_of d' = (\<lambda>k. case price_mapping catalogue k of Some p \<Rightarrow> Some p | None \<Rightarrow> map_of d k)"
proof (induction catalogue arbitrary: d)
  case Nil
  then show ?case by (auto simp: price_mapping_def split: json.splits)
next
  case (Cons item items)
  from Cons.prems(1) obtain t p where entry: "catalogue_entry item = Some (t, p)"
    by (auto simp: well_formed_catalogue_def)
  from catalogue_entry_SomeD [OF entry] obtain kvs where
    item: "item = JObj kvs" "map_of kvs ''title'' = Some (JStr t)"
      "map_of kvs ''price'' = Some p" "as_number p \<noteq> None"
    by blast
  let ?d1 = "dict_store h d (JStr t) p"
  have wf: "well_formed_catalogue items"
    using Cons.prems(1) by (simp add: well_formed_catalogue_def)
  have k1: "string_keys ?d1" using Cons.prems(2) by (rule dict_store_keys)
  have n1: "numeric_values ?d1" using Cons.prems(3) item(4) by (rule dict_store_values)
  from Cons.IH [OF wf k1 n1] obtain d' where
    d': "build_price_dict h items ?d1 = Inr d'" "string_keys d'" "numeric_values d'"
      "map_of d' = (\<lambda>k. case price_mapping items k of Some p \<Rightarrow> Some p | None \<Rightarrow> map_of ?d1 k)"
    by blast
  have step: "build_price_dict h (item # items) d = Inr d'"
    using item d'(1) by (simp add: dict_setitem_def)
  have "map_of d' k =
          (case price_mapping (item # items) k of Some p \<Rightarrow> Some p | None \<Rightarrow> map_of d k)" for k
    using d'(4) entry Cons.prems(2)
    by (auto simp: price_mapping_def dict_store_map_of split: json.splits option.splits)
  then show ?case using step d'(2,3) by blast
qed

lemma build_price_dict_empty:
  assumes "well_formed_catalogue catalogue"
  shows "\<exists>d. build_price_dict h catalogue [] = Inr d \<and> string_keys d \<and> numeric_values d
           \<and> map_of d = price_mapping catalogue"
proof -
  have "string_keys ([] :: 'a py_dict)" "numeric_values ([] :: 'a py_dict)"
    by (simp_all add: string_keys_def numeric_values_def)
  from build_price_dict_well_formed [OF assms this] obtain d where
    d: "build_price_dict h catalogue [] = Inr d" "string_keys d" "numeric_values d"
       "map_of d = (\<lambda>k. case price_mapping catalogue k of Some p \<Rightarrow> Some p | None \<Rightarrow> map_of [] k)"
    by blast
  have "map_of d = price_mapping catalogue"
    unfolding d(4) by (rule ext) (simp split: option.splits)
  with d show ?thesis by blast
qed

section \<open>The loop against the row-by-row reading\<close>

lemma numeric_valuesD:
  "numeric_values d \<Longrightarrow> map_of d k = Some p \<Longrightarrow> \<exists>n. as_number p = Some n"
  by (auto simp: numeric_values_def dest!: map_of_SomeD)

lemma as_number_number_json: "as_number (number_json n) = Some n"
  by (cases n) simp_all

text \<open>Multiplying and then adding, as the code does, is \<open>add_amount\<close>.\<close>

lemma multiply_then_add:
  assumes "as_number price = Some p" "as_number quantity = Some q"
  shows "(case py_mul h price quantity of
            Inl e \<Rightarrow> Inl e
          | Inr amount \<Rightarrow> float_iadd h t amount)
         = (case add_amount h t price quantity of
              None \<Rightarrow> Inl OverflowError
            | Some t' \<Rightarrow> Inr t')"
proof (cases p)
  case (PInt a)
  show ?thesis
  proof (cases q)
    case (PInt b)
    show ?thesis
      using assms \<open>p = PInt a\<close> PInt
      by (simp add: py_mul_def float_iadd_def add_amount_def to_float_def
          split: option.splits)
  next
    case (PFloat y)
    show ?thesis
      using assms \<open>p = PInt a\<close> PFloat
      by (simp add: py_mul_def float_iadd_def add_amount_def to_float_def
          split: option.splits)
  qed
next
  case (PFloat x)
  show ?thesis
  proof (cases q)
    case (PInt b)
    show ?thesis
      using assms \<open>p = PFloat x\<close> PInt
      by (simp add: py_mul_def float_iadd_def add_amount_def to_float_def
          split: option.splits)
  next
    case (PFloat y)
    show ?thesis
      using assms \<open>p = PFloat x\<close> PFloat
      by (simp add: py_mul_def float_iadd_def add_amount_def)
  qed
qed










lemma price_of_absent:
  "\<forall>item \<in> set items. \<forall>p. catalogue_entry item \<noteq> Some (t, p) \<Longrightarrow> price_of items t = None"
  by (induction items) (auto split: option.splits)

lemma price_of_last:
  assumes "catalogue_entry item = Some (t, p)"
    and "\<forall>later \<in> set after. \<forall>q. catalogue_entry later \<noteq> Some (t, q)"
  shows "price_of (before @ item # after) t = Some p"
  using assms by (induction before) (simp_all add: price_of_absent)

lemma build_price_dict_InrD:
  "build_price_dict h catalogue d = Inr d' \<Longrightarrow> item \<in> set catalogue \<Longrightarrow>
     \<exists>t p. py_getitem item ''title'' = Inr t \<and> py_getitem item ''price'' = Inr p"
  by (induction catalogue arbitrary: d) (auto split: sum.splits)

section \<open>The loader, the report and the exit status\<close>


















lemma exit_code_exited: "exit_code (exited out) = 1"
  by (simp add: exited_def)





section \<open>The claims\<close>

subsection \<open>C1: the total of valid sales\<close>




subsection \<open>C7: every record is examined, errors in encounter order\<close>




subsection \<open>C3: a product that is not in the catalogue\<close>

text \<open>
  Claim C3, as the specification states it: the error appended for a product that is not
  in the catalogue is "<product> not found in catalogue". On the scenario of the
  specification (catalogue Apple at 2.0, one sale of one Banana) the code returns the
  total 0.0 and one error, but the text of the error is Spanish.
\<close>

theorem unknown_product_message_counterexample:
  "compute_total_sales whole_host apple_catalogue [sale_of ''Banana'' (JInt 1)]
     = Inr (0, [''Banana no encontrado en el cat'' @ a_acute @ ''logo''])
   \<and> compute_total_sales whole_host apple_catalogue [sale_of ''Banana'' (JInt 1)]
     \<noteq> Inr (0, [''Banana not found in catalogue''])"
  by code_simp

text \<open>
  Claim C3, amended. For every sale record whose Product and Quantity are present (and
  not null) and whose Product is hashable and not a key of the price dictionary, the loop
  appends the error "<product> no encontrado en el catalogo" (with an acute accent on the second a),
  leaves the total as it is and goes on with the next record.
\<close>

theorem unknown_product_is_reported:
  assumes "sale = JObj kvs"
    and "map_of kvs ''Product'' = Some product" "product \<noteq> JNull"
    and "map_of kvs ''Quantity'' = Some quantity" "quantity \<noteq> JNull"
    and "hashable product" "dict_find h price_dict product = None"
  shows "sales_loop h price_dict (sale # rest) (total_cost, errors) =
     sales_loop h price_dict rest
       (total_cost,
        errors @ [py_str h product @ '' no encontrado en el cat'' @ a_acute @ ''logo''])"
  using assms by (simp add: process_sale_def dict_contains_def)

theorem unknown_product_is_reported_witness:
  "sale_of ''Banana'' (JInt 1)
     = (JObj [(''Product'', JStr ''Banana''), (''Quantity'', JInt 1)] :: int json)
   \<and> dict_find whole_host [(JStr ''Apple'', JFloat 2)] (JStr ''Banana'') = None
   \<and> sales_loop whole_host [(JStr ''Apple'', JFloat 2)] [sale_of ''Banana'' (JInt 1)] (0, [])
       = Inr (0, [''Banana no encontrado en el cat'' @ a_acute @ ''logo''])"
proof -
  have sale: "sale_of ''Banana'' (JInt 1)
                = (JObj [(''Product'', JStr ''Banana''), (''Quantity'', JInt 1)] :: int json)"
    by (simp add: sale_of_def)
  have absent: "dict_find whole_host [(JStr ''Apple'', JFloat 2)] (JStr ''Banana'') = None"
    by code_simp
  have "sales_loop whole_host [(JStr ''Apple'', JFloat 2)] [sale_of ''Banana'' (JInt 1)] (0, [])
          = sales_loop whole_host [(JStr ''Apple'', JFloat 2)] []
              (0, [] @ [py_str whole_host (JStr ''Banana'')
                          @ '' no encontrado en el cat'' @ a_acute @ ''logo''])"
    by (rule unknown_product_is_reported
          [where kvs = "[(''Product'', JStr ''Banana''), (''Quantity'', JInt 1)]"
             and product = "JStr ''Banana''" and quantity = "JInt 1", OF sale _ _ _ _ _ absent])
       simp_all
  then have "sales_loop whole_host [(JStr ''Apple'', JFloat 2)] [sale_of ''Banana'' (JInt 1)]
               (0, [])
          = Inr (0, [''Banana no encontrado en el cat'' @ a_acute @ ''logo''])"
    by simp
  then show ?thesis
    by (rule conjI [OF sale conjI [OF absent]])
qed

subsection \<open>C4: a quantity that is not a number or is negative\<close>

text \<open>
  Claim C4, as the specification states it: the error appended for such a quantity is
  "invalid quantity <quantity> for <product>". For a sale of -1 Apple the code returns the
  total 0.0 and one error, but the text of the error is Spanish.
\<close>

theorem invalid_quantity_message_counterexample:
  "compute_total_sales whole_host apple_catalogue [sale_of ''Apple'' (JInt (- 1))]
     = Inr (0, [''Cantidad -1 inv'' @ a_acute @ ''lido para Apple''])
   \<and> compute_total_sales whole_host apple_catalogue [sale_of ''Apple'' (JInt (- 1))]
     \<noteq> Inr (0, [''invalid quantity -1 for Apple''])"
  by code_simp

text \<open>
  Claim C4, amended. For every sale record whose Product and Quantity are present (and
  not null) and whose Product is a key of the price dictionary, if the Quantity is not a
  number (an \<open>int\<close>, which includes \<open>bool\<close>, or a \<open>float\<close>) or is less than 0, the loop
  appends the error "Cantidad <quantity> invalido para <product>" (with an acute accent on
  the a), leaves the total as it is and goes on with the next record.
\<close>

theorem invalid_quantity_is_reported:
  assumes "sale = JObj kvs"
    and "map_of kvs ''Product'' = Some product" "product \<noteq> JNull"
    and "map_of kvs ''Quantity'' = Some quantity" "quantity \<noteq> JNull"
    and "hashable product" "dict_find h price_dict product \<noteq> None"
    and "as_number quantity = None \<or> (\<exists>n. as_number quantity = Some n \<and> num_lt0 h n)"
  shows "sales_loop h price_dict (sale # rest) (total_cost, errors) =
     sales_loop h price_dict rest
       (total_cost,
        errors @ [''Cantidad '' @ py_str h quantity @ '' inv'' @ a_acute @ ''lido para ''
                    @ py_str h product])"
proof -
  have "invalid_quantity h quantity"
    using assms(8) by (auto simp: invalid_quantity_def)
  then show ?thesis
    using assms(1-7) by (simp add: process_sale_def dict_contains_def)
qed

text \<open>A quantity that is a string, then one that is negative.\<close>

theorem invalid_quantity_is_reported_witness:
  "dict_find whole_host [(JStr ''Apple'', JFloat 2)] (JStr ''Apple'') = Some (JFloat 2)
   \<and> as_number (JStr ''three'' :: int json) = None
   \<and> as_number (JInt (- 1) :: int json) = Some (PInt (- 1))
   \<and> num_lt0 whole_host (PInt (- 1))
   \<and> sales_loop whole_host [(JStr ''Apple'', JFloat 2)]
         [sale_of ''Apple'' (JStr ''three''), sale_of ''Apple'' (JInt (- 1))] (0, [])
       = Inr (0, [''Cantidad three inv'' @ a_acute @ ''lido para Apple'',
                  ''Cantidad -1 inv'' @ a_acute @ ''lido para Apple''])"
proof -
  let ?d = "[(JStr ''Apple'', JFloat 2)] :: int py_dict"
  have found: "dict_find whole_host ?d (JStr ''Apple'') = Some (JFloat 2)"
    by code_simp
  have word: "as_number (JStr ''three'' :: int json) = None"
    by simp
  have minus: "as_number (JInt (- 1) :: int json) = Some (PInt (- 1))"
    by simp
  have negative: "num_lt0 whole_host (PInt (- 1))"
    by simp
  have first: "sales_loop whole_host ?d
                 [sale_of ''Apple'' (JStr ''three''), sale_of ''Apple'' (JInt (- 1))] (0, [])
      = sales_loop whole_host ?d [sale_of ''Apple'' (JInt (- 1))]
          (0, [] @ [''Cantidad '' @ py_str whole_host (JStr ''three'') @ '' inv'' @ a_acute
                      @ ''lido para '' @ py_str whole_host (JStr ''Apple'')])"
    by (rule invalid_quantity_is_reported
          [where kvs = "[(''Product'', JStr ''Apple''), (''Quantity'', JStr ''three'')]"
             and product = "JStr ''Apple''" and quantity = "JStr ''three''"])
       (simp_all add: sale_of_def key_eq_JStr)
  have second: "sales_loop whole_host ?d [sale_of ''Apple'' (JInt (- 1))] (0, es)
      = sales_loop whole_host ?d []
          (0, es @ [''Cantidad '' @ py_str whole_host (JInt (- 1)) @ '' inv'' @ a_acute
                      @ ''lido para '' @ py_str whole_host (JStr ''Apple'')])" for es
    by (rule invalid_quantity_is_reported
          [where kvs = "[(''Product'', JStr ''Apple''), (''Quantity'', JInt (- 1))]"
             and product = "JStr ''Apple''" and quantity = "JInt (- 1)"])
       (simp_all add: sale_of_def key_eq_JStr)
  have repr: "py_str whole_host (JInt (- 1)) = ''-1''"
    by code_simp
  have "sales_loop whole_host ?d
          [sale_of ''Apple'' (JStr ''three''), sale_of ''Apple'' (JInt (- 1))] (0, [])
      = Inr (0, [''Cantidad three inv'' @ a_acute @ ''lido para Apple'',
                 ''Cantidad -1 inv'' @ a_acute @ ''lido para Apple''])"
    unfolding first second repr by simp
  then show ?thesis
    by (rule conjI [OF found conjI [OF word conjI [OF minus conjI [OF negative]]]])
qed

subsection \<open>C10: the keys are \<open>Product\<close> and \<open>Quantity\<close>, in that case\<close>

text \<open>
  Claim C10. The loop reads the keys \<open>Product\<close> and \<open>Quantity\<close> and no others: a record
  with the lowercase keys \<open>product\<close> and \<open>quantity\<close>, which is what \<open>load_csv_file\<close>
  builds, is reported as an invalid sales record and leaves the total as it is. (\<open>main\<close>
  loads both files with \<open>load_json_file\<close>.)
\<close>

theorem lowercase_keys_are_invalid_records:
  "sales_loop h price_dict (csv_sale_record product quantity # rest) (total_cost, errors) =
     sales_loop h price_dict rest
       (total_cost,
        errors @ [''Registro inv'' @ a_acute @ ''lido en ventas: ''
                    @ repr h (csv_sale_record product quantity)])"
  by (simp add: process_sale_def csv_sale_record_def)

theorem lowercase_keys_are_invalid_records_witness:
  "sales_loop whole_host [(JStr ''Apple'', JFloat 2)] [csv_sale_record ''Apple'' 3] (0, [])
     = Inr (0, [''Registro inv'' @ a_acute @ ''lido en ventas: ''
                  @ ''{'' @ quote @ ''product'' @ quote @ '': '' @ quote @ ''Apple'' @ quote
                  @ '', '' @ quote @ ''quantity'' @ quote @ '': 3}''])"
proof -
  have repr: "repr whole_host (csv_sale_record ''Apple'' 3)
      = ''{'' @ quote @ ''product'' @ quote @ '': '' @ quote @ ''Apple'' @ quote
          @ '', '' @ quote @ ''quantity'' @ quote @ '': 3}''"
    by code_simp
  show ?thesis
    unfolding lowercase_keys_are_invalid_records repr by simp
qed

subsection \<open>C5: the last entry of a title gives its price\<close>

text \<open>
  Claim C5. In a catalogue of the data model, the price dictionary built by
  \<open>compute_total_sales\<close> holds, for a title, the price of the last entry with that
  title, whatever entries with the same title come before it; a sale of that product with
  a valid quantity is priced at it: the loop adds that price times the quantity to the
  total (and raises OverflowError when an integer to be converted is beyond the float
  range).
\<close>

theorem last_entry_of_a_title_wins:
  assumes "well_formed_catalogue (before @ item # after)"
    and "catalogue_entry item = Some (title, price)"
    and "\<forall>later \<in> set after. \<forall>p. catalogue_entry later \<noteq> Some (title, p)"
    and "as_number quantity = Some q" "\<not> num_lt0 h q"
  shows "\<exists>price_dict.
           build_price_dict h (before @ item # after) [] = Inr price_dict
           \<and> dict_getitem h price_dict (JStr title) = Inr price
           \<and> sales_loop h price_dict (sale_of title quantity # rest) (total_cost, errors)
               = (case add_amount h total_cost price quantity of
                    None \<Rightarrow> Inl OverflowError
                  | Some total_cost' \<Rightarrow> sales_loop h price_dict rest (total_cost', errors))"
proof -
  from build_price_dict_empty [OF assms(1)] obtain d where
    d: "build_price_dict h (before @ item # after) [] = Inr d" "string_keys d"
       "numeric_values d" "map_of d = price_mapping (before @ item # after)"
    by blast
  have found: "dict_find h d (JStr title) = Some price"
    using d(2,4) price_of_last [OF assms(2,3)]
    by (simp add: dict_find_map_of price_mapping_def)
  have getitem: "dict_getitem h d (JStr title) = Inr price"
    using found by (simp add: dict_getitem_def)
  from numeric_valuesD [OF d(3)] found d(2) obtain p where p: "as_number price = Some p"
    by (auto simp: dict_find_map_of)
  have null: "quantity \<noteq> JNull" using assms(4) by auto
  have "process_sale h d (sale_of title quantity) (total_cost, errors)
          = (case (case py_mul h price quantity of
                     Inl e \<Rightarrow> Inl e
                   | Inr amount \<Rightarrow> float_iadd h total_cost amount) of
               Inl e \<Rightarrow> Inl e
             | Inr total_cost' \<Rightarrow> Inr (total_cost', errors))"
    using found assms(4,5) null
    by (simp add: process_sale_def sale_of_def dict_contains_def dict_getitem_def
        invalid_quantity_def split: sum.splits)
  also have "\<dots> = (case add_amount h total_cost price quantity of
                    None \<Rightarrow> Inl OverflowError
                  | Some total_cost' \<Rightarrow> Inr (total_cost', errors))"
    unfolding multiply_then_add [OF p assms(4)] by (simp split: option.splits)
  finally have "sales_loop h d (sale_of title quantity # rest) (total_cost, errors)
      = (case add_amount h total_cost price quantity of
           None \<Rightarrow> Inl OverflowError
         | Some total_cost' \<Rightarrow> sales_loop h d rest (total_cost', errors))"
    by (simp split: option.splits)
  then show ?thesis using d(1) getitem by blast
qed

text \<open>Apple at 2, Apple at 5, Pear at 1, with integer prices: three apples cost 15.0.\<close>

theorem last_entry_of_a_title_wins_witness:
  "well_formed_catalogue
     ([JObj [(''title'', JStr ''Apple''), (''price'', JInt 2)]]
      @ JObj [(''title'', JStr ''Apple''), (''price'', JInt 5)]
      # [JObj [(''title'', JStr ''Pear''), (''price'', JInt 1)] :: int json])
   \<and> catalogue_entry (JObj [(''title'', JStr ''Apple''), (''price'', JInt 5)] :: int json)
       = Some (''Apple'', JInt 5)
   \<and> add_amount whole_host 0 (JInt 5) (JInt 3) = Some 15
   \<and> compute_total_sales whole_host
         ([JObj [(''title'', JStr ''Apple''), (''price'', JInt 2)]]
          @ JObj [(''title'', JStr ''Apple''), (''price'', JInt 5)]
          # [JObj [(''title'', JStr ''Pear''), (''price'', JInt 1)]])
         [sale_of ''Apple'' (JInt 3)]
       = Inr (15, [])"
proof -
  let ?before = "[JObj [(''title'', JStr ''Apple''), (''price'', JInt 2)]] :: int json list"
  let ?item = "JObj [(''title'', JStr ''Apple''), (''price'', JInt 5)] :: int json"
  let ?after = "[JObj [(''title'', JStr ''Pear''), (''price'', JInt 1)]] :: int json list"
  have wf: "well_formed_catalogue (?before @ ?item # ?after)"
    by code_simp
  have entry: "catalogue_entry ?item = Some (''Apple'', JInt 5)"
    by code_simp
  have later: "\<forall>later \<in> set ?after. \<forall>p. catalogue_entry later \<noteq> Some (''Apple'', p)"
    by (simp add: catalogue_entry_def)
  have q: "as_number (JInt 3 :: int json) = Some (PInt 3)"
    by simp
  have positive: "\<not> num_lt0 whole_host (PInt 3)"
    by simp
  have amount: "add_amount whole_host 0 (JInt 5) (JInt 3) = Some 15"
    by code_simp
  have zero: "f_zero whole_host = 0"
    by (simp add: whole_host_def)
  from last_entry_of_a_title_wins [OF wf entry later q positive, of "[]" 0 "[]"]
  obtain price_dict where
    built: "build_price_dict whole_host (?before @ ?item # ?after) [] = Inr price_dict"
    and loop: "sales_loop whole_host price_dict [sale_of ''Apple'' (JInt 3)] (0, [])
               = (case add_amount whole_host 0 (JInt 5) (JInt 3) of
                    None \<Rightarrow> Inl OverflowError
                  | Some total_cost' \<Rightarrow> sales_loop whole_host price_dict [] (total_cost', []))"
    by blast
  have "compute_total_sales whole_host (?before @ ?item # ?after) [sale_of ''Apple'' (JInt 3)]
          = Inr (15, [])"
    unfolding compute_total_sales_def built using loop by (simp add: zero amount)
  then show ?thesis
    by (rule conjI [OF wf conjI [OF entry conjI [OF amount]]])
qed

subsection \<open>C9: a catalogue entry without \<open>title\<close> or \<open>price\<close>\<close>

text \<open>
  Claim C9. Catalogue entries are not validated: when some entry of the catalogue is a
  dictionary without the key \<open>title\<close> or without the key \<open>price\<close>,
  \<open>compute_total_sales\<close> raises an exception, and returns neither a total nor a list of
  errors, whatever the sales are. (A missing \<open>price\<close> raises while the dictionary is
  built, also when no sale names the product.)
\<close>

theorem catalogue_entry_without_key_raises:
  assumes "item \<in> set catalogue" "item = JObj kvs"
    and "map_of kvs ''title'' = None \<or> map_of kvs ''price'' = None"
  shows "\<exists>e. compute_total_sales h catalogue sales = Inl e"
proof (cases "build_price_dict h catalogue []")
  case (Inl e)
  then show ?thesis by (simp add: compute_total_sales_def)
next
  case (Inr d)
  from build_price_dict_InrD [OF Inr assms(1)] assms(2,3) show ?thesis
    by auto
qed

text \<open>An entry without a title, and an entry without a price that no sale names.\<close>

theorem catalogue_entry_without_key_raises_witness:
  "(\<exists>e. compute_total_sales whole_host [JObj [(''price'', JFloat 2)]]
           [sale_of ''Apple'' (JInt 3)] = Inl e)
   \<and> compute_total_sales whole_host [JObj [(''price'', JFloat 2)]]
         [sale_of ''Apple'' (JInt 3)] = Inl (KeyError ''title'')
   \<and> (\<exists>e. compute_total_sales whole_host
              (apple_catalogue @ [JObj [(''title'', JStr ''Pear'')]])
              [sale_of ''Apple'' (JInt 3)] = Inl e)
   \<and> compute_total_sales whole_host (apple_catalogue @ [JObj [(''title'', JStr ''Pear'')]])
         [sale_of ''Apple'' (JInt 3)] = Inl (KeyError ''price'')"
proof -
  have a: "\<exists>e. compute_total_sales whole_host [JObj [(''price'', JFloat 2)]]
                 [sale_of ''Apple'' (JInt 3)] = Inl e"
    by (rule catalogue_entry_without_key_raises
          [where item = "JObj [(''price'', JFloat 2)]" and kvs = "[(''price'', JFloat 2)]"])
       simp_all
  have b: "compute_total_sales whole_host [JObj [(''price'', JFloat 2)]]
             [sale_of ''Apple'' (JInt 3)] = Inl (KeyError ''title'')"
    by code_simp
  have c: "\<exists>e. compute_total_sales whole_host
                 (apple_catalogue @ [JObj [(''title'', JStr ''Pear'')]])
                 [sale_of ''Apple'' (JInt 3)] = Inl e"
    by (rule catalogue_entry_without_key_raises
          [where item = "JObj [(''title'', JStr ''Pear'')]"
             and kvs = "[(''title'', JStr ''Pear'')]"])
       simp_all
  have d: "compute_total_sales whole_host (apple_catalogue @ [JObj [(''title'', JStr ''Pear'')]])
             [sale_of ''Apple'' (JInt 3)] = Inl (KeyError ''price'')"
    by code_simp
  show ?thesis
    by (rule conjI [OF a conjI [OF b conjI [OF c d]]])
qed

subsection \<open>C2: an empty sales sequence and the exit status\<close>




subsection \<open>C6: the loader and the exceptions it does not catch\<close>

text \<open>
  The failures \<open>load_json_file\<close> handles: a missing file, a document that is not JSON,
  any other OSError and a document that is not a list each print a line that names the
  path, and the function returns \<open>None\<close> (when the print itself does not raise).
\<close>

lemma load_json_file_handled:
  assumes "read_json file_path = Inl FileNotFoundError
           \<or> read_json file_path = Inl JSONDecodeError
           \<or> read_json file_path = Inl (OSError file_error)
           \<or> (read_json file_path = Inr document \<and> (\<forall>data. document \<noteq> JList data))"
    and "\<forall>s. print_raises h s = None"
  shows "\<exists>line. load_json_file h read_json file_path out
                  = (out @ line @ newline, Inr None)"
  using assms
  by (auto simp: load_json_file_def print_and_return_none_def py_print_def
      split: json.splits)

text \<open>
  Claim C6 says that the loader never raises to its caller. Its docstring says that it
  handles errors, and its handlers cover FileNotFoundError, json.JSONDecodeError and
  OSError; a file that is not valid UTF-8 raises UnicodeDecodeError from
  \<open>json.load\<close>, which none of the handlers catches. The exception leaves
  \<open>load_json_file\<close> and then \<open>main\<close>, with nothing printed.
\<close>

theorem load_json_file_propagates_decode_error:
  "load_json_file whole_host undecodable_reader ''sales.json'' []
     = ([], Inl UnicodeDecodeError)
   \<and> main whole_host command_line undecodable_reader 0 0
       = \<lparr>stdout = [], results_file = None, uncaught = Some UnicodeDecodeError,
          exit_code = 1\<rparr>"
  by (simp add: load_json_file_def undecodable_reader_def main_def command_line_def
      crashed_def)

subsection \<open>C8: the report\<close>




end
